theory Spec2Isabelle
  imports Complex_Main
begin

section \<open>Credit-card payment eligibility: a shallow embedding\<close>

text \<open>
  The repository holds two versions of the payment customization function
  \<^verbatim>\<open>cartPaymentMethodsTransformRun\<close>:
  \<^item> the extended policy,
    \<^verbatim>\<open>src/extensions/cc-payment-eligibility/src/cart_payment_methods_transform_run.js\<close>,
    whose functions keep their source names here;
  \<^item> the base policy, \<^verbatim>\<open>src/unnamed/part_000\<close>, whose functions carry the suffix
    \<open>_base\<close> where their text differs from the extended one.

  Both read one input document and return one result document. Every
  \<^verbatim>\<open>console.log\<close> call is kept as an event of a trace, and every property read of
  \<^verbatim>\<open>undefined\<close> is kept as the \<^verbatim>\<open>TypeError\<close> that JavaScript throws.
\<close>

subsection \<open>Strings\<close>

text \<open>
  A string is a list of 8-bit characters. \<^verbatim>\<open>String.prototype.toLowerCase\<close> is modelled
  on the letters A to Z; every other character is left as it is. All patterns searched
  for below are lower-case ASCII words.
\<close>

definition toLowerChar :: "char \<Rightarrow> char" where
  "toLowerChar c =
     (case map_of (zip ''ABCDEFGHIJKLMNOPQRSTUVWXYZ'' ''abcdefghijklmnopqrstuvwxyz'') c of
        Some l \<Rightarrow> l
      | None \<Rightarrow> c)"

definition toLowerCase :: "string \<Rightarrow> string" where
  "toLowerCase s = map toLowerChar s"

text \<open>\<^verbatim>\<open>s.startsWith(p)\<close> and \<^verbatim>\<open>s.includes(p)\<close>: \<open>p\<close> occurs in \<open>s\<close> as a
  contiguous run of characters.\<close>

fun startsWith :: "string \<Rightarrow> string \<Rightarrow> bool" where
  "startsWith s [] = True"
| "startsWith [] (p # ps) = False"
| "startsWith (c # cs) (p # ps) = (c = p \<and> startsWith cs ps)"

fun includesStr :: "string \<Rightarrow> string \<Rightarrow> bool" where
  "includesStr [] p = (p = [])"
| "includesStr (c # cs) p = (startsWith (c # cs) p \<or> includesStr cs p)"

subsection \<open>The input document\<close>

text \<open>
  A field that may be absent is an \<open>option\<close>: \<open>None\<close> stands for both
  \<^verbatim>\<open>undefined\<close> and \<^verbatim>\<open>null\<close>, which \<^verbatim>\<open>!x\<close> and \<^verbatim>\<open>x?.f\<close> treat alike.
  The value of an attribute (a metafield) is a primitive JavaScript value, so that the
  strict comparison \<^verbatim>\<open>!== "true"\<close> is stated for strings and non-strings alike. The
  weight keeps \<^verbatim>\<open>undefined\<close> and \<^verbatim>\<open>null\<close> apart, as the extended policy names
  both; a weight that is a number is a finite number (the input is JSON), on which
  \<^verbatim>\<open>=== 0\<close> and \<^verbatim>\<open>> 150\<close> are the comparisons of the reals.
\<close>

datatype jsval = JUndefined | JNull | JBool bool | JNum real | JStr string

datatype weight_val = WUndefined | WNull | WNum real

record metafield =
  mf_value :: jsval

record payment_method =
  pm_id :: string
  pm_name :: "string option"

record customer =
  ccPilotEligible :: "metafield option"

record location =
  loc_id :: string
  loc_name :: string
  ccLocationEligible :: "metafield option"

record purchasing_company =
  location :: "location option"

record product =
  prod_id :: string
  requiresLtl :: "metafield option"
  isParcelEligible :: "metafield option"

record merchandise =
  typename :: string
  product :: "product option"
  weight :: weight_val

record cart_line =
  merchandise :: "merchandise option"

record delivery_option =
  title :: "string option"
  handle :: "string option"

record delivery_group =
  selectedDeliveryOption :: "delivery_option option"

record buyer_identity =
  customer :: "customer option"
  purchasingCompany :: "purchasing_company option"

record cart =
  buyerIdentity :: "buyer_identity option"
  lines :: "cart_line list option"
  deliveryGroups :: "delivery_group list option"

record input =
  paymentMethods :: "payment_method list option"
  cart :: "cart option"

subsection \<open>The result document\<close>

datatype operation = PaymentMethodHide (paymentMethodId: string)

record run_result =
  operations :: "operation list"

definition NO_CHANGES :: run_result where
  "NO_CHANGES = \<lparr>operations = []\<rparr>"

definition PARCEL_WEIGHT_THRESHOLD_LBS :: real where
  "PARCEL_WEIGHT_THRESHOLD_LBS = 150"

text \<open>The result literal built at each failing step:
  \<^verbatim>\<open>{ operations: [{ paymentMethodHide: { paymentMethodId: ccPaymentMethod.id } }] }\<close>.\<close>

definition hide_result :: "payment_method \<Rightarrow> run_result" where
  "hide_result ccPaymentMethod = \<lparr>operations = [PaymentMethodHide (pm_id ccPaymentMethod)]\<rparr>"

subsection \<open>Errors and the trace\<close>

datatype error = TypeError

text \<open>One constructor for each \<^verbatim>\<open>console.log\<close> call, with the values the message
  prints. The two files share a constructor where their messages differ in wording only
  (the message of a weight over the threshold).\<close>

datatype log_event =
    LogStarted
  | LogFullInput input
  | LogFoundCC "payment_method option"
  | LogNoCCFound
  | LogCustomerData "customer option"
  | LogCustomerHiding
  | LogReturningHide run_result
  | LogPurchasingCompany "purchasing_company option"
  | LogLocationHiding
  | LogCartLinesCount nat
  | LogCartHiding
  | LogDeliveryGroupsCount nat
  | LogShippingHiding
  | LogAllPassed
  | LogCompleted
  | LogNoCustomer
  | LogCustomerNotPilot jsval
  | LogNoPurchasingCompany
  | LogNoLocation
  | LogLocationNotEligible string string jsval
  | LogLocationEligible string
  | LogNoDeliveryGroups
  | LogNoShippingSelected
  | LogSelectedShipping "string option" "string option"
  | LogShippingNotEligible "string option"
  | LogShippingEligible "string option"
  | LogEmptyCart
  | LogNonProductVariant string
  | LogNoWeight string
  | LogExceedsWeight string real
  | LogRequiresLtl string
  | LogNotParcelEligible string

text \<open>A computation returns the events it logged, in order, and its value.\<close>

definition logged :: "log_event list \<Rightarrow> log_event list \<times> 'a \<Rightarrow> log_event list \<times> 'a" where
  "logged es r = (es @ fst r, snd r)"

text \<open>\<^verbatim>\<open>m?.value\<close> for an attribute \<open>m\<close> that may be absent.\<close>

definition attr_value :: "metafield option \<Rightarrow> jsval" where
  "attr_value m = (case m of None \<Rightarrow> JUndefined | Some f \<Rightarrow> mf_value f)"

subsection \<open>Target Resolver\<close>

text \<open>Extended policy: the callback of \<^verbatim>\<open>paymentMethods.find\<close>. An empty name is falsy.\<close>

definition isCreditCardMethod :: "payment_method \<Rightarrow> bool" where
  "isCreditCardMethod method =
     (case pm_name method of
        None \<Rightarrow> False
      | Some n \<Rightarrow>
          if n = [] then False
          else
            let nameLower = toLowerCase n
            in if includesStr nameLower ''gift'' then False
               else includesStr nameLower ''credit''
                  \<or> includesStr nameLower ''bogus''
                  \<or> includesStr nameLower ''stripe'')"

definition findCreditCardPaymentMethod :: "payment_method list option \<Rightarrow> payment_method option" where
  "findCreditCardPaymentMethod pms =
     (case pms of None \<Rightarrow> None | Some ms \<Rightarrow> List.find isCreditCardMethod ms)"

text \<open>Base policy: no check for \<^verbatim>\<open>"gift"\<close>, and \<^verbatim>\<open>"card"\<close> is one of the words.\<close>

definition isCreditCardMethod_base :: "payment_method \<Rightarrow> bool" where
  "isCreditCardMethod_base method =
     (case pm_name method of
        None \<Rightarrow> False
      | Some n \<Rightarrow>
          n \<noteq> [] \<and>
          (includesStr (toLowerCase n) ''credit''
           \<or> includesStr (toLowerCase n) ''card''
           \<or> includesStr (toLowerCase n) ''visa''
           \<or> includesStr (toLowerCase n) ''mastercard''))"

definition findCreditCardPaymentMethod_base :: "payment_method list option \<Rightarrow> payment_method option" where
  "findCreditCardPaymentMethod_base pms =
     (case pms of None \<Rightarrow> None | Some ms \<Rightarrow> List.find isCreditCardMethod_base ms)"

subsection \<open>Customer-eligibility check (the same text in both files)\<close>

definition isCustomerEligible :: "customer option \<Rightarrow> log_event list \<times> bool" where
  "isCustomerEligible cust =
     (case cust of
        None \<Rightarrow> ([LogNoCustomer], False)
      | Some c \<Rightarrow>
          let ccPilot = attr_value (ccPilotEligible c)
          in if ccPilot \<noteq> JStr ''true'' then ([LogCustomerNotPilot ccPilot], False)
             else ([], True))"

subsection \<open>Location-eligibility check (extended policy)\<close>

definition isLocationEligible :: "purchasing_company option \<Rightarrow> log_event list \<times> bool" where
  "isLocationEligible pc =
     (case pc of
        None \<Rightarrow> ([LogNoPurchasingCompany], True)
      | Some company \<Rightarrow>
          (case location company of
             None \<Rightarrow> ([LogNoLocation], False)
           | Some loc \<Rightarrow>
               let ccLoc = attr_value (ccLocationEligible loc)
               in if ccLoc \<noteq> JStr ''true''
                  then ([LogLocationNotEligible (loc_name loc) (loc_id loc) ccLoc], False)
                  else ([LogLocationEligible (loc_name loc)], True)))"

subsection \<open>Shipping-method check (extended policy)\<close>

definition allowedMethods :: "string list" where
  "allowedMethods = [''home delivery'', ''express saver'']"

text \<open>\<^verbatim>\<open>s?.toLowerCase() || ""\<close>.\<close>

definition lowerOrEmpty :: "string option \<Rightarrow> string" where
  "lowerOrEmpty s = (case s of None \<Rightarrow> [] | Some t \<Rightarrow> toLowerCase t)"

text \<open>The \<^verbatim>\<open>for\<close> loop over the delivery groups. The lower-cased handle is computed and
  not read again: \<^verbatim>\<open>isAllowed\<close> looks at the title only.\<close>

fun shippingLoop :: "delivery_group list \<Rightarrow> log_event list \<times> bool" where
  "shippingLoop [] = ([], True)"
| "shippingLoop (g # gs) =
     (case selectedDeliveryOption g of
        None \<Rightarrow> logged [LogNoShippingSelected] (shippingLoop gs)
      | Some selectedOption \<Rightarrow>
          let titleL = lowerOrEmpty (title selectedOption);
              handleL = lowerOrEmpty (handle selectedOption);
              isAllowed = list_ex (\<lambda>method. includesStr titleL method) allowedMethods
          in if \<not> isAllowed
             then ([LogSelectedShipping (title selectedOption) (handle selectedOption),
                    LogShippingNotEligible (title selectedOption)], False)
             else logged [LogSelectedShipping (title selectedOption) (handle selectedOption),
                          LogShippingEligible (title selectedOption)]
                    (shippingLoop gs))"

definition isShippingMethodEligible :: "delivery_group list option \<Rightarrow> log_event list \<times> bool" where
  "isShippingMethodEligible dgs =
     (case dgs of
        None \<Rightarrow> ([LogNoDeliveryGroups], True)
      | Some gs \<Rightarrow> if length gs = 0 then ([LogNoDeliveryGroups], True) else shippingLoop gs)"

subsection \<open>Parcel check\<close>

text \<open>Extended policy. Reading \<^verbatim>\<open>line.merchandise.__typename\<close> throws when the line has
  no merchandise, and the two messages that print \<^verbatim>\<open>product.id\<close> throw when the
  merchandise has no product.\<close>

fun parcelLoop :: "cart_line list \<Rightarrow> log_event list \<times> (error + bool)" where
  "parcelLoop [] = ([], Inr True)"
| "parcelLoop (line # rest) =
     (case merchandise line of
        None \<Rightarrow> ([], Inl TypeError)
      | Some m \<Rightarrow>
          if typename m \<noteq> ''ProductVariant''
          then ([LogNonProductVariant (typename m)], Inr False)
          else if weight m = WNull \<or> weight m = WUndefined \<or> weight m = WNum 0
          then (case product m of
                  None \<Rightarrow> ([], Inl TypeError)
                | Some p \<Rightarrow> ([LogNoWeight (prod_id p)], Inr False))
          else (case weight m of
                  WNum w \<Rightarrow>
                    if w > PARCEL_WEIGHT_THRESHOLD_LBS
                    then (case product m of
                            None \<Rightarrow> ([], Inl TypeError)
                          | Some p \<Rightarrow> ([LogExceedsWeight (prod_id p) w], Inr False))
                    else parcelLoop rest
                | _ \<Rightarrow> parcelLoop rest))"

definition isCartParcelEligible :: "cart_line list option \<Rightarrow> log_event list \<times> (error + bool)" where
  "isCartParcelEligible cartLines =
     (case cartLines of
        None \<Rightarrow> ([LogEmptyCart], Inr True)
      | Some ls \<Rightarrow> if length ls = 0 then ([LogEmptyCart], Inr True) else parcelLoop ls)"

text \<open>Base policy. \<^verbatim>\<open>product.requiresLtl\<close> is read on every product variant, so a
  merchandise without product throws. \<^verbatim>\<open>weight && weight > 150\<close>: an absent, null or
  zero weight is falsy.\<close>

fun parcelLoop_base :: "cart_line list \<Rightarrow> log_event list \<times> (error + bool)" where
  "parcelLoop_base [] = ([], Inr True)"
| "parcelLoop_base (line # rest) =
     (case merchandise line of
        None \<Rightarrow> ([], Inl TypeError)
      | Some m \<Rightarrow>
          if typename m \<noteq> ''ProductVariant''
          then ([LogNonProductVariant (typename m)], Inr False)
          else (case product m of
                  None \<Rightarrow> ([], Inl TypeError)
                | Some p \<Rightarrow>
                    if attr_value (requiresLtl p) = JStr ''true''
                    then ([LogRequiresLtl (prod_id p)], Inr False)
                    else if attr_value (isParcelEligible p) = JStr ''false''
                    then ([LogNotParcelEligible (prod_id p)], Inr False)
                    else (case weight m of
                            WNum w \<Rightarrow>
                              if w \<noteq> 0 \<and> w > PARCEL_WEIGHT_THRESHOLD_LBS
                              then ([LogExceedsWeight (prod_id p) w], Inr False)
                              else parcelLoop_base rest
                          | _ \<Rightarrow> parcelLoop_base rest)))"

definition isCartParcelEligible_base :: "cart_line list option \<Rightarrow> log_event list \<times> (error + bool)" where
  "isCartParcelEligible_base cartLines =
     (case cartLines of
        None \<Rightarrow> ([LogEmptyCart], Inr True)
      | Some ls \<Rightarrow> if length ls = 0 then ([LogEmptyCart], Inr True) else parcelLoop_base ls)"

subsection \<open>Decision composition\<close>

text \<open>\<^verbatim>\<open>input.cart?.buyerIdentity?.customer\<close>,
  \<^verbatim>\<open>input.cart?.buyerIdentity?.purchasingCompany\<close>, \<^verbatim>\<open>input.cart?.lines || []\<close> and
  \<^verbatim>\<open>input.cart?.deliveryGroups || []\<close>.\<close>

definition input_customer :: "input \<Rightarrow> customer option" where
  "input_customer inp = Option.bind (Option.bind (cart inp) buyerIdentity) customer"

definition input_purchasingCompany :: "input \<Rightarrow> purchasing_company option" where
  "input_purchasingCompany inp = Option.bind (Option.bind (cart inp) buyerIdentity) purchasingCompany"

definition input_cartLines :: "input \<Rightarrow> cart_line list" where
  "input_cartLines inp = (case Option.bind (cart inp) lines of None \<Rightarrow> [] | Some ls \<Rightarrow> ls)"

definition input_deliveryGroups :: "input \<Rightarrow> delivery_group list" where
  "input_deliveryGroups inp =
     (case Option.bind (cart inp) deliveryGroups of None \<Rightarrow> [] | Some gs \<Rightarrow> gs)"

text \<open>The events of a failing step: its own message and the result it returns.\<close>

definition hiding :: "log_event \<Rightarrow> payment_method \<Rightarrow> log_event list" where
  "hiding msg ccPaymentMethod = [msg, LogReturningHide (hide_result ccPaymentMethod)]"

text \<open>Extended policy: customer, location, parcel, shipping.\<close>

definition cartPaymentMethodsTransformRun :: "input \<Rightarrow> log_event list \<times> (error + run_result)" where
  "cartPaymentMethodsTransformRun inp =
     (let found = findCreditCardPaymentMethod (paymentMethods inp)
      in logged [LogStarted, LogFullInput inp, LogFoundCC found]
        (case found of
           None \<Rightarrow> ([LogNoCCFound], Inr NO_CHANGES)
         | Some ccPaymentMethod \<Rightarrow>
             let cust = input_customer inp;
                 r1 = isCustomerEligible cust
             in logged (LogCustomerData cust # fst r1)
               (if \<not> snd r1
                then (hiding LogCustomerHiding ccPaymentMethod, Inr (hide_result ccPaymentMethod))
                else
                  let company = input_purchasingCompany inp;
                      r2 = isLocationEligible company
                  in logged (LogPurchasingCompany company # fst r2)
                    (if \<not> snd r2
                     then (hiding LogLocationHiding ccPaymentMethod,
                           Inr (hide_result ccPaymentMethod))
                     else
                       let cartLines = input_cartLines inp;
                           r3 = isCartParcelEligible (Some cartLines)
                       in logged (LogCartLinesCount (length cartLines) # fst r3)
                         (case snd r3 of
                            Inl e \<Rightarrow> ([], Inl e)
                          | Inr False \<Rightarrow>
                              (hiding LogCartHiding ccPaymentMethod,
                               Inr (hide_result ccPaymentMethod))
                          | Inr True \<Rightarrow>
                              let groups = input_deliveryGroups inp;
                                  r4 = isShippingMethodEligible (Some groups)
                              in logged (LogDeliveryGroupsCount (length groups) # fst r4)
                                (if \<not> snd r4
                                 then (hiding LogShippingHiding ccPaymentMethod,
                                       Inr (hide_result ccPaymentMethod))
                                 else ([LogAllPassed, LogCompleted], Inr NO_CHANGES)))))))"

text \<open>Base policy: customer, parcel.\<close>

definition cartPaymentMethodsTransformRun_base :: "input \<Rightarrow> log_event list \<times> (error + run_result)" where
  "cartPaymentMethodsTransformRun_base inp =
     (let found = findCreditCardPaymentMethod_base (paymentMethods inp)
      in logged [LogStarted, LogFullInput inp, LogFoundCC found]
        (case found of
           None \<Rightarrow> ([LogNoCCFound], Inr NO_CHANGES)
         | Some ccPaymentMethod \<Rightarrow>
             let cust = input_customer inp;
                 r1 = isCustomerEligible cust
             in logged (LogCustomerData cust # fst r1)
               (if \<not> snd r1
                then (hiding LogCustomerHiding ccPaymentMethod, Inr (hide_result ccPaymentMethod))
                else
                  let cartLines = input_cartLines inp;
                      r2 = isCartParcelEligible_base (Some cartLines)
                  in logged (LogCartLinesCount (length cartLines) # fst r2)
                    (case snd r2 of
                       Inl e \<Rightarrow> ([], Inl e)
                     | Inr False \<Rightarrow>
                         (hiding LogCartHiding ccPaymentMethod,
                          Inr (hide_result ccPaymentMethod))
                     | Inr True \<Rightarrow> ([LogAllPassed, LogCompleted], Inr NO_CHANGES)))))"

text \<open>The decision of a run, or the error it throws.\<close>

definition decision :: "log_event list \<times> (error + run_result) \<Rightarrow> error + run_result" where
  "decision r = snd r"

subsection \<open>Terms used in the statements\<close>

text \<open>A delivery group passes on its title: it has no selected option, or the
  lower-cased title of the option contains one of the allowed words.\<close>

definition titleAllowed :: "delivery_group \<Rightarrow> bool" where
  "titleAllowed g =
     (case selectedDeliveryOption g of
        None \<Rightarrow> True
      | Some opt \<Rightarrow>
          list_ex (\<lambda>method. includesStr (lowerOrEmpty (title opt)) method) allowedMethods)"

text \<open>The same group with the handle of its selected option replaced.\<close>

definition withHandle :: "(delivery_option \<Rightarrow> string option) \<Rightarrow> delivery_group \<Rightarrow> delivery_group" where
  "withHandle h g =
     g\<lparr>selectedDeliveryOption :=
         map_option (\<lambda>opt. opt\<lparr>handle := h opt\<rparr>) (selectedDeliveryOption g)\<rparr>"

text \<open>A cart line whose merchandise is a product variant with a product, and a product
  that carries neither flag.\<close>

definition variantLine :: "product \<Rightarrow> weight_val \<Rightarrow> cart_line" where
  "variantLine p w =
     \<lparr>merchandise = Some \<lparr>typename = ''ProductVariant'', product = Some p, weight = w\<rparr>\<rparr>"

definition unflagged :: "string \<Rightarrow> product" where
  "unflagged i = \<lparr>prod_id = i, requiresLtl = None, isParcelEligible = None\<rparr>"

text \<open>Concrete documents: a customer in the pilot, a method that both policies select, a
  method that neither selects, a line without merchandise, a product-variant line
  without product and weight, and the input of a consumer checkout (no purchasing
  company, no delivery group).\<close>

definition pilotCustomer :: customer where
  "pilotCustomer = \<lparr>ccPilotEligible = Some \<lparr>mf_value = JStr ''true''\<rparr>\<rparr>"

definition visaMethod :: payment_method where
  "visaMethod = \<lparr>pm_id = ''pm1'', pm_name = Some ''Visa Credit Card''\<rparr>"

definition cashMethod :: payment_method where
  "cashMethod = \<lparr>pm_id = ''pm2'', pm_name = Some ''Cash on Delivery''\<rparr>"

definition noMerchandiseLine :: cart_line where
  "noMerchandiseLine = \<lparr>merchandise = None\<rparr>"

definition noProductLine :: cart_line where
  "noProductLine =
     \<lparr>merchandise = Some \<lparr>typename = ''ProductVariant'', product = None, weight = WUndefined\<rparr>\<rparr>"

definition consumerInput :: "payment_method list \<Rightarrow> customer option \<Rightarrow> cart_line list \<Rightarrow> input" where
  "consumerInput pms cust ls =
     \<lparr>paymentMethods = Some pms,
      cart = Some \<lparr>buyerIdentity = Some \<lparr>customer = cust, purchasingCompany = None\<rparr>,
                   lines = Some ls,
                   deliveryGroups = Some []\<rparr>\<rparr>"

section \<open>Properties\<close>

lemmas example_defs =
  pilotCustomer_def visaMethod_def cashMethod_def noMerchandiseLine_def noProductLine_def
  consumerInput_def variantLine_def unflagged_def
  input_customer_def input_purchasingCompany_def input_cartLines_def input_deliveryGroups_def
  findCreditCardPaymentMethod_def isCreditCardMethod_def
  findCreditCardPaymentMethod_base_def isCreditCardMethod_base_def
  toLowerCase_def toLowerChar_def
  isCustomerEligible_def isLocationEligible_def attr_value_def
  isCartParcelEligible_def isCartParcelEligible_base_def PARCEL_WEIGHT_THRESHOLD_LBS_def
  isShippingMethodEligible_def


subsection \<open>Strings\<close>

lemma startsWith_iff: "startsWith s p \<longleftrightarrow> (\<exists>b. s = p @ b)"
  by (induction s p rule: startsWith.induct) auto

lemma includesStr_iff: "includesStr s p \<longleftrightarrow> (\<exists>a b. s = a @ p @ b)"
proof (induction s)
  case Nil
  then show ?case by auto
next
  case (Cons c cs)
  show ?case
  proof
    assume "includesStr (c # cs) p"
    then consider "startsWith (c # cs) p" | "includesStr cs p" by auto
    then show "\<exists>a b. c # cs = a @ p @ b"
    proof cases
      case 1
      then obtain b where "c # cs = p @ b" using startsWith_iff by blast
      then have "c # cs = [] @ p @ b" by simp
      then show ?thesis by blast
    next
      case 2
      then obtain a b where "cs = a @ p @ b" using Cons.IH by blast
      then have "c # cs = (c # a) @ p @ b" by simp
      then show ?thesis by blast
    qed
  next
    assume "\<exists>a b. c # cs = a @ p @ b"
    then obtain a b where ab: "c # cs = a @ p @ b" by blast
    show "includesStr (c # cs) p"
    proof (cases a)
      case Nil
      with ab have "startsWith (c # cs) p" using startsWith_iff by auto
      then show ?thesis by simp
    next
      case (Cons x xs)
      with ab have "cs = xs @ p @ b" by simp
      then have "includesStr cs p" using Cons.IH by blast
      then show ?thesis by simp
    qed
  qed
qed

subsection \<open>Target Resolver\<close>

lemma find_Some_holds: "List.find P xs = Some x \<Longrightarrow> P x \<and> x \<in> set xs"
  by (induction xs) (auto split: if_splits)

text \<open>The extended policy never selects a method whose lower-cased name contains
  \<^verbatim>\<open>"gift"\<close>: the test for it comes first in the callback.\<close>

lemma findCreditCardPaymentMethod_never_gift:
  assumes "findCreditCardPaymentMethod pms = Some t"
  shows "\<exists>n. pm_name t = Some n \<and> \<not> includesStr (toLowerCase n) ''gift''"
proof -
  from assms obtain ms where f: "List.find isCreditCardMethod ms = Some t"
    by (auto simp: findCreditCardPaymentMethod_def split: option.splits)
  from find_Some_holds [OF f] have "isCreditCardMethod t" by simp
  then show ?thesis
    by (auto simp: isCreditCardMethod_def Let_def split: option.splits if_splits)
qed

text \<open>
  Claim C1. The claim: in both policies the Target Resolver never selects a method whose
  name contains "gift", whatever else the name contains and whatever follows in the list.
  The extended policy keeps it (\<open>findCreditCardPaymentMethod_never_gift\<close>). The base
  policy does not: on the list of a method named "Gift Card" followed by a method named
  "Credit Card" it selects the gift card, whose name contains "card", where the extended
  policy selects the credit card.
\<close>

theorem base_resolver_selects_gift_card:
  "findCreditCardPaymentMethod_base
     (Some [\<lparr>pm_id = ''gc'', pm_name = Some ''Gift Card''\<rparr>,
            \<lparr>pm_id = ''cc'', pm_name = Some ''Credit Card''\<rparr>])
     = Some \<lparr>pm_id = ''gc'', pm_name = Some ''Gift Card''\<rparr>
   \<and> includesStr (toLowerCase ''Gift Card'') ''gift''
   \<and> findCreditCardPaymentMethod
       (Some [\<lparr>pm_id = ''gc'', pm_name = Some ''Gift Card''\<rparr>,
              \<lparr>pm_id = ''cc'', pm_name = Some ''Credit Card''\<rparr>])
     = Some \<lparr>pm_id = ''cc'', pm_name = Some ''Credit Card''\<rparr>"
  by (simp add: findCreditCardPaymentMethod_base_def isCreditCardMethod_base_def
      findCreditCardPaymentMethod_def isCreditCardMethod_def toLowerCase_def toLowerChar_def)

subsection \<open>Shipping-method check\<close>

lemma shippingLoop_titles: "snd (shippingLoop gs) = list_all titleAllowed gs"
  by (induction gs) (auto simp: titleAllowed_def logged_def Let_def split: option.splits)

lemma isShippingMethodEligible_titles:
  "snd (isShippingMethodEligible (Some gs)) = list_all titleAllowed gs"
  by (cases gs)
     (simp_all add: isShippingMethodEligible_def shippingLoop_titles del: shippingLoop.simps)

lemma titleAllowed_withHandle: "titleAllowed (withHandle h g) = titleAllowed g"
  by (simp add: titleAllowed_def withHandle_def split: option.splits)

text \<open>
  Claim C2, as stated: a selected option whose handle, but not its title, contains an
  allowed word passes the shipping check. It does not: the option titled
  "Standard Ground" with handle "fedex-HOME DELIVERY-1" fails the check, although its
  lower-cased handle contains "home delivery".
\<close>

theorem shipping_handle_match_fails:
  "list_ex (\<lambda>method. includesStr (lowerOrEmpty (Some ''fedex-HOME DELIVERY-1'')) method)
     allowedMethods
   \<and> \<not> list_ex (\<lambda>method. includesStr (lowerOrEmpty (Some ''Standard Ground'')) method)
     allowedMethods
   \<and> snd (isShippingMethodEligible
        (Some [\<lparr>selectedDeliveryOption =
                 Some \<lparr>title = Some ''Standard Ground'',
                       handle = Some ''fedex-HOME DELIVERY-1''\<rparr>\<rparr>]))
     = False"
  by (simp add: isShippingMethodEligible_def allowedMethods_def lowerOrEmpty_def
      toLowerCase_def toLowerChar_def)

text \<open>
  Claim C2, amended: the shipping check passes exactly when every delivery group with a
  selected option has a lower-cased title that contains "home delivery" or
  "express saver"; the handle is lower-cased but never matched, so replacing the handles
  of the selected options in any way leaves the outcome unchanged.
\<close>

theorem shipping_matches_title_only:
  "snd (isShippingMethodEligible (Some gs)) = list_all titleAllowed gs
   \<and> snd (isShippingMethodEligible (Some (map (withHandle h) gs)))
       = snd (isShippingMethodEligible (Some gs))"
  by (simp add: isShippingMethodEligible_titles list_all_iff titleAllowed_withHandle)

subsection \<open>Customer and location checks\<close>

text \<open>
  Claim C6. The customer check returns false exactly when the customer is absent, or the
  attribute \<open>ccPilotEligible\<close> is absent, or its value is not the string "true"; it
  returns true exactly when the value is the string "true". The value ranges over all
  primitive values, so "TRUE", "1", the empty string and every non-string are among the
  values that give false.
\<close>

theorem customer_eligible_iff:
  "(snd (isCustomerEligible cust) = False \<longleftrightarrow>
      (cust = None
       \<or> (\<exists>c. cust = Some c \<and> ccPilotEligible c = None)
       \<or> (\<exists>c m. cust = Some c \<and> ccPilotEligible c = Some m \<and> mf_value m \<noteq> JStr ''true'')))
   \<and> (snd (isCustomerEligible cust) = True \<longleftrightarrow>
      (\<exists>c m. cust = Some c \<and> ccPilotEligible c = Some m \<and> mf_value m = JStr ''true''))"
  by (auto simp: isCustomerEligible_def attr_value_def Let_def split: option.splits)

text \<open>
  Claim C7. The location check passes when there is no purchasing company. With a
  purchasing company it fails when the location is absent, when the location has no
  attribute \<open>ccLocationEligible\<close>, and when the value of that attribute is anything
  but the string "true"; it passes exactly when the location is present and the value
  of its attribute is the string "true". So an absent company passes, while an absent
  location or attribute fails.
\<close>

theorem location_eligible_cases:
  "(snd (isLocationEligible pc) = True \<longleftrightarrow>
      (pc = None
       \<or> (\<exists>c loc m. pc = Some c \<and> location c = Some loc
             \<and> ccLocationEligible loc = Some m \<and> mf_value m = JStr ''true'')))
   \<and> (snd (isLocationEligible pc) = False \<longleftrightarrow>
      ((\<exists>c. pc = Some c \<and> location c = None)
       \<or> (\<exists>c loc. pc = Some c \<and> location c = Some loc \<and> ccLocationEligible loc = None)
       \<or> (\<exists>c loc m. pc = Some c \<and> location c = Some loc
             \<and> ccLocationEligible loc = Some m \<and> mf_value m \<noteq> JStr ''true'')))
   \<and> snd (isLocationEligible None) = True
   \<and> snd (isLocationEligible (Some \<lparr>location = None\<rparr>)) = False
   \<and> (\<forall>i n. snd (isLocationEligible
          (Some \<lparr>location = Some \<lparr>loc_id = i, loc_name = n, ccLocationEligible = None\<rparr>\<rparr>))
        = False)
   \<and> (\<forall>i n v. snd (isLocationEligible
          (Some \<lparr>location = Some \<lparr>loc_id = i, loc_name = n,
                                   ccLocationEligible = Some \<lparr>mf_value = v\<rparr>\<rparr>\<rparr>))
        = (v = JStr ''true''))"
  by (auto simp: isLocationEligible_def attr_value_def Let_def split: option.splits)

subsection \<open>Parcel check\<close>

text \<open>
  Claim C3. For a product-variant line whose product carries no flag and whose weight is
  undefined, null or 0, the base parcel loop goes on to the next line, and the base
  check of the cart of that one line returns true, while the extended loop stops with
  false and the extended check of the same cart returns false.
\<close>

theorem parcel_weight_divergence:
  "parcelLoop_base (variantLine (unflagged i) WUndefined # rest) = parcelLoop_base rest
   \<and> parcelLoop_base (variantLine (unflagged i) WNull # rest) = parcelLoop_base rest
   \<and> parcelLoop_base (variantLine (unflagged i) (WNum 0) # rest) = parcelLoop_base rest
   \<and> snd (isCartParcelEligible_base (Some [variantLine (unflagged i) WUndefined])) = Inr True
   \<and> snd (isCartParcelEligible_base (Some [variantLine (unflagged i) WNull])) = Inr True
   \<and> snd (isCartParcelEligible_base (Some [variantLine (unflagged i) (WNum 0)])) = Inr True
   \<and> snd (parcelLoop (variantLine (unflagged i) WUndefined # rest)) = Inr False
   \<and> snd (parcelLoop (variantLine (unflagged i) WNull # rest)) = Inr False
   \<and> snd (parcelLoop (variantLine (unflagged i) (WNum 0) # rest)) = Inr False
   \<and> snd (isCartParcelEligible (Some [variantLine (unflagged i) WUndefined])) = Inr False
   \<and> snd (isCartParcelEligible (Some [variantLine (unflagged i) WNull])) = Inr False
   \<and> snd (isCartParcelEligible (Some [variantLine (unflagged i) (WNum 0)])) = Inr False"
  by (simp add: variantLine_def unflagged_def isCartParcelEligible_def
      isCartParcelEligible_base_def attr_value_def PARCEL_WEIGHT_THRESHOLD_LBS_def)

text \<open>
  Claim C8. In both policies a product-variant line with a product (in the base policy:
  whose flags do not disqualify it) and weight exactly 150 passes: the loop goes on to
  the next line, and the cart of that one line is parcel eligible. The same line with
  weight 151 stops the loop with false. For any weight \<open>w\<close> the comparison is the strict
  \<open>w > 150\<close>.
\<close>

theorem parcel_threshold_boundary:
  "attr_value (requiresLtl p) \<noteq> JStr ''true'' \<Longrightarrow>
   attr_value (isParcelEligible p) \<noteq> JStr ''false'' \<Longrightarrow>
   parcelLoop (variantLine p (WNum 150) # rest) = parcelLoop rest
   \<and> parcelLoop (variantLine p (WNum 151) # rest) = ([LogExceedsWeight (prod_id p) 151], Inr False)
   \<and> parcelLoop_base (variantLine p (WNum 150) # rest) = parcelLoop_base rest
   \<and> parcelLoop_base (variantLine p (WNum 151) # rest)
       = ([LogExceedsWeight (prod_id p) 151], Inr False)
   \<and> snd (isCartParcelEligible (Some [variantLine p (WNum 150)])) = Inr True
   \<and> snd (isCartParcelEligible (Some [variantLine p (WNum 151)])) = Inr False
   \<and> snd (isCartParcelEligible_base (Some [variantLine p (WNum 150)])) = Inr True
   \<and> snd (isCartParcelEligible_base (Some [variantLine p (WNum 151)])) = Inr False
   \<and> snd (isCartParcelEligible (Some [variantLine p (WNum w)])) = Inr (w \<noteq> 0 \<and> \<not> w > 150)
   \<and> snd (isCartParcelEligible_base (Some [variantLine p (WNum w)])) = Inr (\<not> w > 150)"
  by (auto simp: variantLine_def isCartParcelEligible_def
      isCartParcelEligible_base_def PARCEL_WEIGHT_THRESHOLD_LBS_def)

theorem parcel_threshold_boundary_witness:
  "attr_value (requiresLtl (unflagged ''p1'')) \<noteq> JStr ''true''
   \<and> attr_value (isParcelEligible (unflagged ''p1'')) \<noteq> JStr ''false''
   \<and> snd (isCartParcelEligible (Some [variantLine (unflagged ''p1'') (WNum 150)])) = Inr True
   \<and> snd (isCartParcelEligible (Some [variantLine (unflagged ''p1'') (WNum 151)])) = Inr False
   \<and> snd (isCartParcelEligible_base (Some [variantLine (unflagged ''p1'') (WNum 150)])) = Inr True
   \<and> snd (isCartParcelEligible_base (Some [variantLine (unflagged ''p1'') (WNum 151)])) = Inr False"
proof -
  have h1: "attr_value (requiresLtl (unflagged ''p1'')) \<noteq> JStr ''true''"
    by (simp add: unflagged_def attr_value_def)
  have h2: "attr_value (isParcelEligible (unflagged ''p1'')) \<noteq> JStr ''false''"
    by (simp add: unflagged_def attr_value_def)
  from parcel_threshold_boundary [OF h1 h2] h1 h2 show ?thesis
    by blast
qed

subsection \<open>Decision composition\<close>

lemma error_TypeError: "(e::error) = TypeError"
  by (cases e) simp

lemma run_decisions:
  "decision (cartPaymentMethodsTransformRun inp) = Inl TypeError
   \<or> decision (cartPaymentMethodsTransformRun inp) = Inr NO_CHANGES
   \<or> (\<exists>t. findCreditCardPaymentMethod (paymentMethods inp) = Some t
        \<and> decision (cartPaymentMethodsTransformRun inp) = Inr (hide_result t))"
  by (auto simp: cartPaymentMethodsTransformRun_def decision_def logged_def Let_def
      intro: error_TypeError split: option.splits sum.splits bool.splits)

lemma run_base_decisions:
  "decision (cartPaymentMethodsTransformRun_base inp) = Inl TypeError
   \<or> decision (cartPaymentMethodsTransformRun_base inp) = Inr NO_CHANGES
   \<or> (\<exists>t. findCreditCardPaymentMethod_base (paymentMethods inp) = Some t
        \<and> decision (cartPaymentMethodsTransformRun_base inp) = Inr (hide_result t))"
  by (auto simp: cartPaymentMethodsTransformRun_base_def decision_def logged_def Let_def
      intro: error_TypeError split: option.splits sum.splits bool.splits)

text \<open>
  Claim C5. In both policies a run that returns a result returns a list of operations
  that is empty or holds exactly one \<open>PaymentMethodHide\<close>, whose id is the id of the
  method the Target Resolver selected; the only other outcome of a run is a thrown
  \<open>TypeError\<close>, which returns no result.
\<close>

theorem at_most_one_operation:
  "(decision (cartPaymentMethodsTransformRun inp) = Inl TypeError
    \<or> (\<exists>r. decision (cartPaymentMethodsTransformRun inp) = Inr r
          \<and> (operations r = []
              \<or> (\<exists>t. findCreditCardPaymentMethod (paymentMethods inp) = Some t
                    \<and> operations r = [PaymentMethodHide (pm_id t)]))))
   \<and> (decision (cartPaymentMethodsTransformRun_base inp) = Inl TypeError
    \<or> (\<exists>r. decision (cartPaymentMethodsTransformRun_base inp) = Inr r
          \<and> (operations r = []
              \<or> (\<exists>t. findCreditCardPaymentMethod_base (paymentMethods inp) = Some t
                    \<and> operations r = [PaymentMethodHide (pm_id t)]))))"
proof
  show "decision (cartPaymentMethodsTransformRun inp) = Inl TypeError
    \<or> (\<exists>r. decision (cartPaymentMethodsTransformRun inp) = Inr r
          \<and> (operations r = []
              \<or> (\<exists>t. findCreditCardPaymentMethod (paymentMethods inp) = Some t
                    \<and> operations r = [PaymentMethodHide (pm_id t)])))"
    using run_decisions [of inp] by (auto simp: NO_CHANGES_def hide_result_def)
  show "decision (cartPaymentMethodsTransformRun_base inp) = Inl TypeError
    \<or> (\<exists>r. decision (cartPaymentMethodsTransformRun_base inp) = Inr r
          \<and> (operations r = []
              \<or> (\<exists>t. findCreditCardPaymentMethod_base (paymentMethods inp) = Some t
                    \<and> operations r = [PaymentMethodHide (pm_id t)])))"
    using run_base_decisions [of inp] by (auto simp: NO_CHANGES_def hide_result_def)
qed

text \<open>
  Claim C4. When no payment method matches (an absent list and an empty list are two
  such cases), the run returns the result without operations, whatever the customer, the
  purchasing company, the cart lines and the delivery groups are; it is a result, not an
  error, and the trace ends with the message of the missing method: no check has logged
  or thrown anything.
\<close>

theorem no_target_no_change:
  "(findCreditCardPaymentMethod (paymentMethods inp) = None \<longrightarrow>
      cartPaymentMethodsTransformRun inp
        = ([LogStarted, LogFullInput inp, LogFoundCC None, LogNoCCFound], Inr NO_CHANGES))
   \<and> (findCreditCardPaymentMethod_base (paymentMethods inp) = None \<longrightarrow>
      cartPaymentMethodsTransformRun_base inp
        = ([LogStarted, LogFullInput inp, LogFoundCC None, LogNoCCFound], Inr NO_CHANGES))
   \<and> findCreditCardPaymentMethod None = None
   \<and> findCreditCardPaymentMethod (Some []) = None
   \<and> findCreditCardPaymentMethod_base None = None
   \<and> findCreditCardPaymentMethod_base (Some []) = None
   \<and> operations NO_CHANGES = []"
  by (simp add: cartPaymentMethodsTransformRun_def cartPaymentMethodsTransformRun_base_def
      logged_def findCreditCardPaymentMethod_def findCreditCardPaymentMethod_base_def NO_CHANGES_def)

theorem no_target_no_change_witness:
  "findCreditCardPaymentMethod
     (paymentMethods (consumerInput [cashMethod] (Some pilotCustomer) [noMerchandiseLine])) = None
   \<and> findCreditCardPaymentMethod_base
     (paymentMethods (consumerInput [cashMethod] (Some pilotCustomer) [noMerchandiseLine])) = None
   \<and> decision (cartPaymentMethodsTransformRun
        (consumerInput [cashMethod] (Some pilotCustomer) [noMerchandiseLine])) = Inr NO_CHANGES
   \<and> decision (cartPaymentMethodsTransformRun_base
        (consumerInput [cashMethod] (Some pilotCustomer) [noMerchandiseLine])) = Inr NO_CHANGES"
proof -
  let ?inp = "consumerInput [cashMethod] (Some pilotCustomer) [noMerchandiseLine]"
  have h: "findCreditCardPaymentMethod (paymentMethods ?inp) = None"
    by (simp add: example_defs)
  have hb: "findCreditCardPaymentMethod_base (paymentMethods ?inp) = None"
    by (simp add: example_defs)
  from h hb no_target_no_change [of ?inp] show ?thesis
    by (simp add: decision_def)
qed

lemma run_customer_fails:
  assumes "\<not> snd (isCustomerEligible (input_customer inp))"
  shows "decision (cartPaymentMethodsTransformRun inp)
           = (case findCreditCardPaymentMethod (paymentMethods inp) of
                None \<Rightarrow> Inr NO_CHANGES
              | Some t \<Rightarrow> Inr (hide_result t))"
    and "decision (cartPaymentMethodsTransformRun_base inp)
           = (case findCreditCardPaymentMethod_base (paymentMethods inp) of
                None \<Rightarrow> Inr NO_CHANGES
              | Some t \<Rightarrow> Inr (hide_result t))"
  using assms
  by (simp_all add: cartPaymentMethodsTransformRun_def cartPaymentMethodsTransformRun_base_def
      decision_def logged_def Let_def split: option.splits)

text \<open>
  Claim C9. When the customer check fails (an absent customer is one such case) and the
  resolver has selected a method, the run returns the single operation that hides that
  method, in both policies. The trace stops after the customer step, and any other input
  with the same payment methods and the same customer gets the same decision, whatever
  its purchasing company, cart lines and delivery groups are.
\<close>

theorem customer_failure_hides_target:
  assumes c: "\<not> snd (isCustomerEligible (input_customer inp))"
  shows
   "(findCreditCardPaymentMethod (paymentMethods inp) = Some t \<longrightarrow>
      cartPaymentMethodsTransformRun inp
        = ([LogStarted, LogFullInput inp, LogFoundCC (Some t), LogCustomerData (input_customer inp)]
             @ fst (isCustomerEligible (input_customer inp))
             @ [LogCustomerHiding, LogReturningHide (hide_result t)],
           Inr (hide_result t)))
   \<and> (findCreditCardPaymentMethod_base (paymentMethods inp) = Some t \<longrightarrow>
      cartPaymentMethodsTransformRun_base inp
        = ([LogStarted, LogFullInput inp, LogFoundCC (Some t), LogCustomerData (input_customer inp)]
             @ fst (isCustomerEligible (input_customer inp))
             @ [LogCustomerHiding, LogReturningHide (hide_result t)],
           Inr (hide_result t)))
   \<and> operations (hide_result t) = [PaymentMethodHide (pm_id t)]
   \<and> isCustomerEligible None = ([LogNoCustomer], False)
   \<and> (\<forall>inp'. paymentMethods inp' = paymentMethods inp
               \<and> input_customer inp' = input_customer inp \<longrightarrow>
           decision (cartPaymentMethodsTransformRun inp')
             = decision (cartPaymentMethodsTransformRun inp)
           \<and> decision (cartPaymentMethodsTransformRun_base inp')
             = decision (cartPaymentMethodsTransformRun_base inp))"
proof -
  have ext: "findCreditCardPaymentMethod (paymentMethods inp) = Some t \<longrightarrow>
      cartPaymentMethodsTransformRun inp
        = ([LogStarted, LogFullInput inp, LogFoundCC (Some t), LogCustomerData (input_customer inp)]
             @ fst (isCustomerEligible (input_customer inp))
             @ [LogCustomerHiding, LogReturningHide (hide_result t)],
           Inr (hide_result t))"
    using c by (simp add: cartPaymentMethodsTransformRun_def logged_def Let_def hiding_def)
  have base: "findCreditCardPaymentMethod_base (paymentMethods inp) = Some t \<longrightarrow>
      cartPaymentMethodsTransformRun_base inp
        = ([LogStarted, LogFullInput inp, LogFoundCC (Some t), LogCustomerData (input_customer inp)]
             @ fst (isCustomerEligible (input_customer inp))
             @ [LogCustomerHiding, LogReturningHide (hide_result t)],
           Inr (hide_result t))"
    using c by (simp add: cartPaymentMethodsTransformRun_base_def logged_def Let_def hiding_def)
  have ops: "operations (hide_result t) = [PaymentMethodHide (pm_id t)]"
    by (simp add: hide_result_def)
  have absent: "isCustomerEligible None = ([LogNoCustomer], False)"
    by (simp add: isCustomerEligible_def)
  have indep: "decision (cartPaymentMethodsTransformRun inp')
                 = decision (cartPaymentMethodsTransformRun inp)
               \<and> decision (cartPaymentMethodsTransformRun_base inp')
                 = decision (cartPaymentMethodsTransformRun_base inp)"
    if same: "paymentMethods inp' = paymentMethods inp \<and> input_customer inp' = input_customer inp"
    for inp'
  proof -
    from same c have c': "\<not> snd (isCustomerEligible (input_customer inp'))" by simp
    show ?thesis
      using run_customer_fails [OF c] run_customer_fails [OF c'] same by simp
  qed
  from ext base ops absent indep show ?thesis by blast
qed

theorem customer_failure_hides_target_witness:
  "\<not> snd (isCustomerEligible (input_customer (consumerInput [visaMethod] None [noMerchandiseLine])))
   \<and> findCreditCardPaymentMethod
       (paymentMethods (consumerInput [visaMethod] None [noMerchandiseLine])) = Some visaMethod
   \<and> findCreditCardPaymentMethod_base
       (paymentMethods (consumerInput [visaMethod] None [noMerchandiseLine])) = Some visaMethod
   \<and> decision (cartPaymentMethodsTransformRun (consumerInput [visaMethod] None [noMerchandiseLine]))
       = Inr \<lparr>operations = [PaymentMethodHide ''pm1'']\<rparr>
   \<and> decision (cartPaymentMethodsTransformRun_base (consumerInput [visaMethod] None [noMerchandiseLine]))
       = Inr \<lparr>operations = [PaymentMethodHide ''pm1'']\<rparr>"
proof -
  let ?inp = "consumerInput [visaMethod] None [noMerchandiseLine]"
  have c: "\<not> snd (isCustomerEligible (input_customer ?inp))"
    by (simp add: example_defs)
  have f: "findCreditCardPaymentMethod (paymentMethods ?inp) = Some visaMethod"
    by (simp add: example_defs)
  have fb: "findCreditCardPaymentMethod_base (paymentMethods ?inp) = Some visaMethod"
    by (simp add: example_defs)
  have h: "hide_result visaMethod = \<lparr>operations = [PaymentMethodHide ''pm1'']\<rparr>"
    by (simp add: hide_result_def visaMethod_def)
  from customer_failure_hides_target [OF c, of visaMethod] c f fb h show ?thesis
    by (simp add: decision_def)
qed

lemma parcelLoop_append:
  "snd (parcelLoop pre) = Inr True \<Longrightarrow> snd (parcelLoop (pre @ rest)) = snd (parcelLoop rest)"
  by (induction pre rule: parcelLoop.induct)
     (auto split: option.splits if_splits weight_val.splits)

lemma parcelLoop_base_append:
  "snd (parcelLoop_base pre) = Inr True \<Longrightarrow>
   snd (parcelLoop_base (pre @ rest)) = snd (parcelLoop_base rest)"
  by (induction pre rule: parcelLoop_base.induct)
     (auto split: option.splits if_splits weight_val.splits)

lemma isCartParcelEligible_throws:
  assumes "snd (parcelLoop pre) = Inr True" and "snd (parcelLoop (l # post)) = Inl TypeError"
  shows "snd (isCartParcelEligible (Some (pre @ l # post))) = Inl TypeError"
  using parcelLoop_append [OF assms(1), of "l # post"] assms(2)
  by (simp add: isCartParcelEligible_def)

lemma isCartParcelEligible_base_throws:
  assumes "snd (parcelLoop_base pre) = Inr True" and "snd (parcelLoop_base (l # post)) = Inl TypeError"
  shows "snd (isCartParcelEligible_base (Some (pre @ l # post))) = Inl TypeError"
  using parcelLoop_base_append [OF assms(1), of "l # post"] assms(2)
  by (simp add: isCartParcelEligible_base_def)

lemma run_throws:
  assumes "findCreditCardPaymentMethod (paymentMethods inp) = Some t"
    and "snd (isCustomerEligible (input_customer inp))"
    and "snd (isLocationEligible (input_purchasingCompany inp))"
    and "snd (isCartParcelEligible (Some (input_cartLines inp))) = Inl TypeError"
  shows "decision (cartPaymentMethodsTransformRun inp) = Inl TypeError"
  using assms
  by (simp add: cartPaymentMethodsTransformRun_def decision_def logged_def Let_def)

lemma run_base_throws:
  assumes "findCreditCardPaymentMethod_base (paymentMethods inp) = Some t"
    and "snd (isCustomerEligible (input_customer inp))"
    and "snd (isCartParcelEligible_base (Some (input_cartLines inp))) = Inl TypeError"
  shows "decision (cartPaymentMethodsTransformRun_base inp) = Inl TypeError"
  using assms
  by (simp add: cartPaymentMethodsTransformRun_base_def decision_def logged_def Let_def)

text \<open>
  Claim C10. The parcel check throws on some lines. When a method is selected, the
  customer check (and the location check, in the extended policy) passes and the lines
  before it pass the parcel loop, a line without merchandise makes the run throw a
  \<open>TypeError\<close> in both policies; and in the extended policy so does a product-variant
  line without product whose weight is undefined. No decision is returned.
\<close>

theorem parcel_check_throws:
  "(findCreditCardPaymentMethod (paymentMethods inp) = Some t
      \<and> snd (isCustomerEligible (input_customer inp))
      \<and> snd (isLocationEligible (input_purchasingCompany inp))
      \<and> input_cartLines inp = pre @ l # post
      \<and> snd (parcelLoop pre) = Inr True
      \<and> merchandise l = None
    \<longrightarrow> decision (cartPaymentMethodsTransformRun inp) = Inl TypeError)
   \<and> (findCreditCardPaymentMethod_base (paymentMethods inp) = Some t
      \<and> snd (isCustomerEligible (input_customer inp))
      \<and> input_cartLines inp = pre @ l # post
      \<and> snd (parcelLoop_base pre) = Inr True
      \<and> merchandise l = None
    \<longrightarrow> decision (cartPaymentMethodsTransformRun_base inp) = Inl TypeError)
   \<and> (findCreditCardPaymentMethod (paymentMethods inp) = Some t
      \<and> snd (isCustomerEligible (input_customer inp))
      \<and> snd (isLocationEligible (input_purchasingCompany inp))
      \<and> input_cartLines inp = pre @ l # post
      \<and> snd (parcelLoop pre) = Inr True
      \<and> merchandise l = Some m
      \<and> typename m = ''ProductVariant''
      \<and> product m = None
      \<and> weight m = WUndefined
    \<longrightarrow> decision (cartPaymentMethodsTransformRun inp) = Inl TypeError)"
proof (intro conjI impI)
  assume a: "findCreditCardPaymentMethod (paymentMethods inp) = Some t
      \<and> snd (isCustomerEligible (input_customer inp))
      \<and> snd (isLocationEligible (input_purchasingCompany inp))
      \<and> input_cartLines inp = pre @ l # post
      \<and> snd (parcelLoop pre) = Inr True
      \<and> merchandise l = None"
  then have "snd (parcelLoop (l # post)) = Inl TypeError" by simp
  with a have "snd (isCartParcelEligible (Some (input_cartLines inp))) = Inl TypeError"
    using isCartParcelEligible_throws by simp
  with a show "decision (cartPaymentMethodsTransformRun inp) = Inl TypeError"
    using run_throws by blast
next
  assume a: "findCreditCardPaymentMethod_base (paymentMethods inp) = Some t
      \<and> snd (isCustomerEligible (input_customer inp))
      \<and> input_cartLines inp = pre @ l # post
      \<and> snd (parcelLoop_base pre) = Inr True
      \<and> merchandise l = None"
  then have "snd (parcelLoop_base (l # post)) = Inl TypeError" by simp
  with a have "snd (isCartParcelEligible_base (Some (input_cartLines inp))) = Inl TypeError"
    using isCartParcelEligible_base_throws by simp
  with a show "decision (cartPaymentMethodsTransformRun_base inp) = Inl TypeError"
    using run_base_throws by blast
next
  assume a: "findCreditCardPaymentMethod (paymentMethods inp) = Some t
      \<and> snd (isCustomerEligible (input_customer inp))
      \<and> snd (isLocationEligible (input_purchasingCompany inp))
      \<and> input_cartLines inp = pre @ l # post
      \<and> snd (parcelLoop pre) = Inr True
      \<and> merchandise l = Some m
      \<and> typename m = ''ProductVariant''
      \<and> product m = None
      \<and> weight m = WUndefined"
  then have "snd (parcelLoop (l # post)) = Inl TypeError" by simp
  with a have "snd (isCartParcelEligible (Some (input_cartLines inp))) = Inl TypeError"
    using isCartParcelEligible_throws by simp
  with a show "decision (cartPaymentMethodsTransformRun inp) = Inl TypeError"
    using run_throws by blast
qed

theorem parcel_check_throws_witness:
  "findCreditCardPaymentMethod (paymentMethods
       (consumerInput [visaMethod] (Some pilotCustomer)
          ([variantLine (unflagged ''p1'') (WNum 50)] @ noMerchandiseLine # []))) = Some visaMethod
   \<and> snd (isCustomerEligible (Some pilotCustomer))
   \<and> snd (isLocationEligible None)
   \<and> snd (parcelLoop [variantLine (unflagged ''p1'') (WNum 50)]) = Inr True
   \<and> snd (parcelLoop_base [variantLine (unflagged ''p1'') (WNum 50)]) = Inr True
   \<and> decision (cartPaymentMethodsTransformRun
        (consumerInput [visaMethod] (Some pilotCustomer)
          ([variantLine (unflagged ''p1'') (WNum 50)] @ noMerchandiseLine # [])))
       = Inl TypeError
   \<and> decision (cartPaymentMethodsTransformRun_base
        (consumerInput [visaMethod] (Some pilotCustomer)
          ([variantLine (unflagged ''p1'') (WNum 50)] @ noMerchandiseLine # [])))
       = Inl TypeError
   \<and> decision (cartPaymentMethodsTransformRun
        (consumerInput [visaMethod] (Some pilotCustomer)
          ([variantLine (unflagged ''p1'') (WNum 50)] @ noProductLine # [])))
       = Inl TypeError"
proof -
  let ?good = "variantLine (unflagged ''p1'') (WNum 50)"
  let ?A = "consumerInput [visaMethod] (Some pilotCustomer) ([?good] @ noMerchandiseLine # [])"
  let ?C = "consumerInput [visaMethod] (Some pilotCustomer) ([?good] @ noProductLine # [])"
  let ?m = "\<lparr>typename = ''ProductVariant'', product = None, weight = WUndefined\<rparr>"
  have fA: "findCreditCardPaymentMethod (paymentMethods ?A) = Some visaMethod"
    and fbA: "findCreditCardPaymentMethod_base (paymentMethods ?A) = Some visaMethod"
    and fC: "findCreditCardPaymentMethod (paymentMethods ?C) = Some visaMethod"
    by (simp_all add: example_defs)
  have cust: "snd (isCustomerEligible (Some pilotCustomer))"
    and loc: "snd (isLocationEligible None)"
    by (simp_all add: example_defs)
  have inA: "input_customer ?A = Some pilotCustomer" "input_purchasingCompany ?A = None"
      "input_cartLines ?A = [?good] @ noMerchandiseLine # []"
    and inC: "input_customer ?C = Some pilotCustomer" "input_purchasingCompany ?C = None"
      "input_cartLines ?C = [?good] @ noProductLine # []"
    by (simp_all add: consumerInput_def input_customer_def input_purchasingCompany_def
        input_cartLines_def)
  have pre: "snd (parcelLoop [?good]) = Inr True"
    and preb: "snd (parcelLoop_base [?good]) = Inr True"
    by (simp_all add: example_defs)
  have l: "merchandise noMerchandiseLine = None"
    and lC: "merchandise noProductLine = Some ?m" "typename ?m = ''ProductVariant''"
      "product ?m = None" "weight ?m = WUndefined"
    by (simp_all add: noMerchandiseLine_def noProductLine_def)
  have A: "decision (cartPaymentMethodsTransformRun ?A) = Inl TypeError"
    using parcel_check_throws [of ?A visaMethod "[?good]" noMerchandiseLine "[]" ?m]
      fA cust loc inA pre l by simp
  have B: "decision (cartPaymentMethodsTransformRun_base ?A) = Inl TypeError"
    using parcel_check_throws [of ?A visaMethod "[?good]" noMerchandiseLine "[]" ?m]
      fbA cust inA preb l by simp
  have C: "decision (cartPaymentMethodsTransformRun ?C) = Inl TypeError"
    using parcel_check_throws [of ?C visaMethod "[?good]" noProductLine "[]" ?m]
      fC cust loc inC pre lC by simp
  from fA cust loc pre preb A B C show ?thesis by blast
qed

end
